theory Spec2Isabelle
  imports Complex_Main
begin

section \<open>Python strings\<close>

text \<open>
  A Python \<^verbatim>\<open>str\<close> is a sequence of Unicode code points, so it is modelled as a list of
  natural numbers (the rupee sign of the scraper's patterns is code point 8377, outside
  any 8-bit character type). Literals are written \<open>str ''...''\<close>.
\<close>

type_synonym pystr = "nat list"

definition str :: "string \<Rightarrow> pystr" where
  "str cs = map of_char cs"

text \<open>\<^verbatim>\<open>str(n)\<close> for a non-negative integer: its decimal digits.\<close>

fun str_of_nat :: "nat \<Rightarrow> pystr" where
  "str_of_nat n = (if n < 10 then [48 + n] else str_of_nat (n div 10) @ [48 + n mod 10])"

text \<open>
  \<^verbatim>\<open>xs[i:j]\<close>: a negative index counts from the end, and both ends are clamped to the
  sequence.
\<close>

definition norm_index :: "int \<Rightarrow> int \<Rightarrow> int" where
  "norm_index n i = (if i < 0 then max 0 (i + n) else min i n)"

definition py_slice :: "'a list \<Rightarrow> int \<Rightarrow> int \<Rightarrow> 'a list" where
  "py_slice xs i j =
     (let n = int (length xs); a = norm_index n i; b = norm_index n j
      in take (nat (b - a)) (drop (nat a) xs))"

text \<open>Exceptions are values; each carries the message that \<^verbatim>\<open>str(e)\<close> shows.\<close>

datatype error =
    ValueError pystr
  | ValidationError pystr
  | ZeroDivisionError pystr
  | IndexError pystr
  | Exception pystr


section \<open>config.py\<close>

record settings =
  ALLOWED_DOMAINS :: "pystr list"
  CHUNK_SIZE :: int
  CHUNK_OVERLAP :: int

definition config :: settings where
  "config = \<lparr>ALLOWED_DOMAINS =
               [str ''mf.nipponindiaim.com'', str ''nipponindiaim.com'',
                str ''amfiindia.com'', str ''sebi.gov.in''],
             CHUNK_SIZE = 1000,
             CHUNK_OVERLAP = 200\<rparr>"

section \<open>storage/data\_store.py: create\_text\_chunks\<close>

text \<open>
  \<^verbatim>\<open>TextChunk\<close> of storage/models.py. Its \<^verbatim>\<open>source_url\<close> is a pydantic \<^verbatim>\<open>HttpUrl\<close>:
  constructing a chunk validates the URL and raises \<^verbatim>\<open>ValidationError\<close> when it is not one.
  The fields carry the prefix \<open>tc_\<close>, which leaves the plain names to the parameters of
  \<^verbatim>\<open>create_text_chunks\<close>.
\<close>

record 't TextChunk =
  tc_chunk_id :: pystr
  tc_scheme_code :: pystr
  tc_chunk_type :: pystr
  tc_content :: pystr
  tc_metadata :: "pystr \<rightharpoonup> pystr"
  tc_source_url :: pystr
  tc_created_at :: 't

text \<open>
  What the function reads from outside: the clock (\<^verbatim>\<open>datetime.now()\<close> at the iteration with
  the given index) and pydantic's URL validation. The hash \<^verbatim>\<open>hashlib.md5(s.encode()).hexdigest()\<close>
  is a parameter \<open>md5_hex\<close> of its own.
\<close>

record 't chunk_env =
  now :: "nat \<Rightarrow> 't"
  http_url_ok :: "pystr \<Rightarrow> bool"

definition chunk_key :: "pystr \<Rightarrow> pystr \<Rightarrow> nat \<Rightarrow> pystr" where
  "chunk_key scheme_code chunk_type i = scheme_code @ str ''_'' @ chunk_type @ str ''_'' @ str_of_nat i"

definition mk_chunk ::
  "(pystr \<Rightarrow> pystr) \<Rightarrow> 't chunk_env \<Rightarrow> settings \<Rightarrow> pystr \<Rightarrow> pystr \<Rightarrow> pystr \<Rightarrow> pystr
     \<Rightarrow> (pystr \<rightharpoonup> pystr) option \<Rightarrow> int \<Rightarrow> nat \<Rightarrow> 't TextChunk" where
  "mk_chunk md5_hex env cfg scheme_code content chunk_type source_url metadata start chunk_index =
     \<lparr>tc_chunk_id = md5_hex (chunk_key scheme_code chunk_type chunk_index),
      tc_scheme_code = scheme_code,
      tc_chunk_type = chunk_type,
      tc_content = py_slice content start (start + CHUNK_SIZE cfg),
      tc_metadata = (case metadata of None \<Rightarrow> Map.empty | Some m \<Rightarrow> m),
      tc_source_url = source_url,
      tc_created_at = now env chunk_index\<rparr>"

text \<open>
  The \<^verbatim>\<open>while start < len(content)\<close> loop. It need not terminate (the step
  \<open>CHUNK_SIZE - CHUNK_OVERLAP\<close> may be zero or negative), so \<open>None\<close> stands for a run
  that never returns; \<open>Some (Inl e)\<close> is a raised exception.
\<close>

partial_function (option) chunk_loop ::
  "(pystr \<Rightarrow> pystr) \<Rightarrow> 't chunk_env \<Rightarrow> settings \<Rightarrow> pystr \<Rightarrow> pystr \<Rightarrow> pystr \<Rightarrow> pystr
     \<Rightarrow> (pystr \<rightharpoonup> pystr) option \<Rightarrow> int \<Rightarrow> nat \<Rightarrow> 't TextChunk list
     \<Rightarrow> (error + 't TextChunk list) option" where
  "chunk_loop md5_hex env cfg scheme_code content chunk_type source_url metadata start chunk_index chunks =
     (if start < int (length content) then
        (if \<not> http_url_ok env source_url then Some (Inl (ValidationError (str ''source_url'')))
         else chunk_loop md5_hex env cfg scheme_code content chunk_type source_url metadata
                (start + CHUNK_SIZE cfg - CHUNK_OVERLAP cfg) (chunk_index + 1)
                (chunks @ [mk_chunk md5_hex env cfg scheme_code content chunk_type source_url metadata start chunk_index]))
      else Some (Inr chunks))"

definition create_text_chunks ::
  "(pystr \<Rightarrow> pystr) \<Rightarrow> 't chunk_env \<Rightarrow> settings \<Rightarrow> pystr \<Rightarrow> pystr \<Rightarrow> pystr \<Rightarrow> pystr
     \<Rightarrow> (pystr \<rightharpoonup> pystr) option \<Rightarrow> (error + 't TextChunk list) option" where
  "create_text_chunks md5_hex env cfg scheme_code content chunk_type source_url metadata =
     chunk_loop md5_hex env cfg scheme_code content chunk_type source_url metadata 0 0 []"

section \<open>String methods\<close>

text \<open>
  Case mapping is modelled on the ASCII letters; every other code point is its own lower
  case. Whitespace is the set of \<^verbatim>\<open>str.isspace\<close>, which is also what \<^verbatim>\<open>\s\<close> matches.
  Decimal digits are the ASCII digits.
\<close>

definition lower_cp :: "nat \<Rightarrow> nat" where
  "lower_cp c = (if 65 \<le> c \<and> c \<le> 90 then c + 32 else c)"

definition lower :: "pystr \<Rightarrow> pystr" where
  "lower s = map lower_cp s"

definition is_space :: "nat \<Rightarrow> bool" where
  "is_space c = ((9 \<le> c \<and> c \<le> 13) \<or> (28 \<le> c \<and> c \<le> 32) \<or> c = 133 \<or> c = 160 \<or> c = 5760
     \<or> (8192 \<le> c \<and> c \<le> 8202) \<or> c = 8232 \<or> c = 8233 \<or> c = 8239 \<or> c = 8287 \<or> c = 12288)"

definition is_digit :: "nat \<Rightarrow> bool" where
  "is_digit c = (48 \<le> c \<and> c \<le> 57)"

definition is_alpha :: "nat \<Rightarrow> bool" where
  "is_alpha c = ((65 \<le> c \<and> c \<le> 90) \<or> (97 \<le> c \<and> c \<le> 122))"

definition strip :: "pystr \<Rightarrow> pystr" where
  "strip s = rev (dropWhile is_space (rev (dropWhile is_space s)))"

text \<open>\<^verbatim>\<open>sub in s\<close> for strings.\<close>

fun is_in :: "pystr \<Rightarrow> pystr \<Rightarrow> bool" where
  "is_in sub [] = (sub = [])"
| "is_in sub (c # cs) = (take (length sub) (c # cs) = sub \<or> is_in sub cs)"

definition endswith :: "pystr \<Rightarrow> pystr \<Rightarrow> bool" where
  "endswith s suffix = (length suffix \<le> length s \<and> drop (length s - length suffix) s = suffix)"

text \<open>\<^verbatim>\<open>s.replace(',', '')\<close>.\<close>

definition remove_commas :: "pystr \<Rightarrow> pystr" where
  "remove_commas s = filter (\<lambda>c. c \<noteq> 44) s"

text \<open>\<^verbatim>\<open>s.split()\<close>: the maximal runs of non-whitespace.\<close>

fun split_acc :: "pystr \<Rightarrow> pystr \<Rightarrow> pystr list" where
  "split_acc cur [] = (if cur = [] then [] else [cur])"
| "split_acc cur (c # cs) =
     (if is_space c then (if cur = [] then split_acc [] cs else cur # split_acc [] cs)
      else split_acc (cur @ [c]) cs)"

definition split :: "pystr \<Rightarrow> pystr list" where
  "split s = split_acc [] s"

text \<open>\<^verbatim>\<open>s.split(d)\<close> for a one-character separator.\<close>

fun split_on_acc :: "nat \<Rightarrow> pystr \<Rightarrow> pystr \<Rightarrow> pystr list" where
  "split_on_acc d cur [] = [cur]"
| "split_on_acc d cur (c # cs) =
     (if c = d then cur # split_on_acc d [] cs else split_on_acc d (cur @ [c]) cs)"

definition split_on :: "nat \<Rightarrow> pystr \<Rightarrow> pystr list" where
  "split_on d s = split_on_acc d [] s"

fun join :: "pystr \<Rightarrow> pystr list \<Rightarrow> pystr" where
  "join sep [] = []"
| "join sep [x] = x"
| "join sep (x # y # ys) = x @ sep @ join sep (y # ys)"

text \<open>
  \<^verbatim>\<open>float(s)\<close> on the strings the patterns below can capture once commas are removed:
  digits with at most one decimal point. No digit at all is a \<^verbatim>\<open>ValueError\<close>. The value
  is the real number written; binary rounding is not modelled.
\<close>

definition digits_val :: "pystr \<Rightarrow> nat" where
  "digits_val ds = foldl (\<lambda>n c. 10 * n + (c - 48)) 0 ds"

definition py_float :: "pystr \<Rightarrow> error + real" where
  "py_float s =
     (let ip = takeWhile is_digit s; rest = dropWhile is_digit s in
      case rest of
        [] \<Rightarrow> if ip = [] then Inl (ValueError (str ''could not convert string to float''))
              else Inr (real (digits_val ip))
      | c # fp \<Rightarrow>
          if c = 46 \<and> list_all is_digit fp \<and> (ip \<noteq> [] \<or> fp \<noteq> [])
          then Inr (real (digits_val ip) + real (digits_val fp) / 10 ^ length fp)
          else Inl (ValueError (str ''could not convert string to float'')))"

section \<open>Regular expressions\<close>

text \<open>
  The patterns of the repository, as data, with the backtracking semantics of Python's
  \<^verbatim>\<open>re\<close>: \<open>ms r (s, g)\<close> lists every way \<open>r\<close> can match a prefix of \<open>s\<close>, as the
  remaining input and the groups captured, in the order in which the engine tries them
  (greedy repetition prefers one more iteration, a lazy one prefers to stop, an alternation
  prefers its left branch). The engine returns the first.
\<close>

type_synonym groups = "(nat \<times> pystr) list"

datatype re =
    Cls "nat \<Rightarrow> bool"
  | Eps
  | Seq re re
  | Alt re re
  | Opt re
  | Star re
  | LazyStar re
  | Group nat re
  | Eos

fun ms :: "re \<Rightarrow> pystr \<times> groups \<Rightarrow> (pystr \<times> groups) list" where
  "ms (Cls p) (s, g) = (case s of [] \<Rightarrow> [] | c # cs \<Rightarrow> if p c then [(cs, g)] else [])"
| "ms Eps st = [st]"
| "ms (Seq a b) st = concat (map (ms b) (ms a st))"
| "ms (Alt a b) st = ms a st @ ms b st"
| "ms (Opt a) st = ms a st @ [st]"
| "ms (Star a) st =
     concat (map (\<lambda>st'. if length (fst st') < length (fst st) then ms (Star a) st' else [])
               (ms a st)) @ [st]"
| "ms (LazyStar a) st =
     st # concat (map (\<lambda>st'. if length (fst st') < length (fst st) then ms (LazyStar a) st' else [])
                    (ms a st))"
| "ms (Group n a) (s, g) =
     map (\<lambda>(s', g'). (s', (n, take (length s - length s') s) # g')) (ms a (s, g))"
| "ms Eos (s, g) = (if s = [] \<or> s = [10] then [(s, g)] else [])"

text \<open>\<^verbatim>\<open>m.group(n)\<close> of a match whose group \<open>n\<close> took part.\<close>

definition group :: "groups \<Rightarrow> nat \<Rightarrow> pystr" where
  "group g n = (case map_of g n of Some x \<Rightarrow> x | None \<Rightarrow> [])"

text \<open>
  \<^verbatim>\<open>re.search\<close>: the leftmost position at which the pattern matches; the result is
  \<^verbatim>\<open>group(0)\<close> and the groups.
\<close>

fun re_search :: "re \<Rightarrow> pystr \<Rightarrow> (pystr \<times> groups) option" where
  "re_search r s =
     (case ms r (s, []) of
        (s', g) # _ \<Rightarrow> Some (take (length s - length s') s, g)
      | [] \<Rightarrow> (case s of [] \<Rightarrow> None | _ # cs \<Rightarrow> re_search r cs))"

text \<open>
  \<^verbatim>\<open>re.findall\<close> for a pattern with one group: the group of each match, the matches
  found left to right without overlap.
\<close>

fun findall :: "re \<Rightarrow> pystr \<Rightarrow> pystr list" where
  "findall r s =
     (case ms r (s, []) of
        (s', g) # _ \<Rightarrow>
          group g 1 # (if length s' < length s then findall r s'
                       else (case s of [] \<Rightarrow> [] | _ # cs \<Rightarrow> findall r cs))
      | [] \<Rightarrow> (case s of [] \<Rightarrow> [] | _ # cs \<Rightarrow> findall r cs))"

definition lit :: "nat \<Rightarrow> re" where
  "lit c = Cls (\<lambda>x. x = c)"

text \<open>A literal under \<^verbatim>\<open>re.I\<close>.\<close>

definition lit_i :: "nat \<Rightarrow> re" where
  "lit_i c = Cls (\<lambda>x. lower_cp x = lower_cp c)"

fun seqs :: "re list \<Rightarrow> re" where
  "seqs [] = Eps"
| "seqs [r] = r"
| "seqs (r # rs) = Seq r (seqs rs)"

definition word :: "string \<Rightarrow> re" where
  "word w = seqs (map (lit \<circ> of_char) w)"

definition word_i :: "string \<Rightarrow> re" where
  "word_i w = seqs (map (lit_i \<circ> of_char) w)"

definition Plus :: "re \<Rightarrow> re" where
  "Plus a = Seq a (Star a)"

definition LazyPlus :: "re \<Rightarrow> re" where
  "LazyPlus a = Seq a (LazyStar a)"

text \<open>\<^verbatim>\<open>[\d,]+\.?\d*\<close>, the number syntax shared by the NAV and AUM patterns.\<close>

definition number_re :: re where
  "number_re = seqs [Plus (Cls (\<lambda>c. is_digit c \<or> c = 44)), Opt (lit 46), Star (Cls is_digit)]"

text \<open>\<^verbatim>\<open>[:\s]*\<close>, then an optional rupee sign, then \<^verbatim>\<open>\s*\<close>.\<close>

definition label_sep_re :: re where
  "label_sep_re = seqs [Star (Cls (\<lambda>c. c = 58 \<or> is_space c)), Opt (lit 8377), Star (Cls is_space)]"

section \<open>scraper/url\_validator.py\<close>

text \<open>
  \<^verbatim>\<open>urlparse(url).netloc\<close> belongs to the standard library, so \<open>validate_url\<close> takes it as
  a parameter: \<open>Inl e\<close> when parsing raises, \<open>Inr netloc\<close> otherwise.
\<close>

fun allowed_loop :: "pystr \<Rightarrow> pystr list \<Rightarrow> bool" where
  "allowed_loop domain [] = False"
| "allowed_loop domain (allowed_domain # rest) =
     (if domain = allowed_domain \<or> endswith domain (str ''.'' @ allowed_domain) then True
      else allowed_loop domain rest)"

definition validate_url :: "(pystr \<Rightarrow> error + pystr) \<Rightarrow> settings \<Rightarrow> pystr \<Rightarrow> bool" where
  "validate_url urlparse_netloc cfg url =
     (case urlparse_netloc url of
        Inl e \<Rightarrow> False
      | Inr netloc \<Rightarrow> allowed_loop (lower netloc) (ALLOWED_DOMAINS cfg))"

text \<open>
  A model of the library's \<^verbatim>\<open>urlsplit\<close>, for concrete URLs: leading control characters and
  spaces are dropped, tabs and newlines removed, a scheme \<^verbatim>\<open>letters:\<close> is split off, and
  after \<^verbatim>\<open>//\<close> the network location runs to the first of \<^verbatim>\<open>/ ? #\<close>. Unbalanced square
  brackets raise \<^verbatim>\<open>ValueError\<close>.
\<close>

definition scheme_char :: "nat \<Rightarrow> bool" where
  "scheme_char c = (is_alpha c \<or> is_digit c \<or> c = 43 \<or> c = 45 \<or> c = 46)"

definition urlsplit_netloc :: "pystr \<Rightarrow> error + pystr" where
  "urlsplit_netloc url0 =
     (let url = filter (\<lambda>c. c \<noteq> 9 \<and> c \<noteq> 10 \<and> c \<noteq> 13) (dropWhile (\<lambda>c. c \<le> 32) url0);
          pre = takeWhile (\<lambda>c. c \<noteq> 58) url;
          rest = (if length pre < length url \<and> pre \<noteq> [] \<and> is_alpha (hd pre) \<and> list_all scheme_char pre
                  then drop (length pre + 1) url else url)
      in if take 2 rest = str ''//'' then
           (let netloc = takeWhile (\<lambda>c. c \<noteq> 47 \<and> c \<noteq> 63 \<and> c \<noteq> 35) (drop 2 rest) in
            if (91 \<in> set netloc) \<noteq> (93 \<in> set netloc) then Inl (ValueError (str ''Invalid IPv6 URL''))
            else Inr netloc)
         else Inr [])"




section \<open>backend: the query path\<close>

text \<open>
  A retrieval result is the dictionary \<^verbatim>\<open>{'document', 'metadata', 'distance'}\<close> that
  \<^verbatim>\<open>RAGSystem.search\<close> builds; the distance is a float or \<^verbatim>\<open>None\<close> (a real number
  here). Of a stored scheme the query path reads the fields below. Field names carry a
  prefix for their record (\<open>sr_\<close>, \<open>sm_\<close>, \<open>sd_\<close>, and \<open>tc_\<close> for a text chunk), which
  leaves the plain names to the local variables of the functions. The dictionary
  \<^verbatim>\<open>field_sources\<close> is the list of its items (keys distinct), \<^verbatim>\<open>None\<close> when absent.
\<close>

record search_result =
  sr_document :: pystr
  sr_metadata :: "pystr \<rightharpoonup> pystr"
  sr_distance :: "real option"

record SchemeMetadata =
  sm_scheme_code :: pystr
  sm_scheme_name :: pystr
  sm_source_url :: pystr

record SchemeData =
  sd_metadata :: SchemeMetadata
  sd_field_sources :: "(pystr \<times> pystr) list option"

text \<open>What \<^verbatim>\<open>collection.query\<close> returns; \<open>distances = None\<close> when the key is absent.\<close>

record chroma_result =
  documents :: "pystr list list"
  metadatas :: "(pystr \<rightharpoonup> pystr) list list"
  distances :: "real list list option"

text \<open>
  The outside world of one query: the URL parser, the constructor \<^verbatim>\<open>QueryAnswerer()\<close>
  (which raises without an API key), the vector index, the scheme files on disk and the
  language-model oracle behind \<^verbatim>\<open>_call_openrouter\<close>. Each call either raises or returns.
\<close>

record world =
  urlparse_netloc :: "pystr \<Rightarrow> error + pystr"
  init :: "error option"
  collection_count :: "error + int"
  collection_query :: "pystr \<Rightarrow> int \<Rightarrow> error + chroma_result"
  load_all_schemes :: "error + SchemeData list"
  call_openrouter :: "(pystr \<times> pystr) list \<Rightarrow> error + pystr"

text \<open>The calls made to the outside, in order.\<close>

datatype call = Init | Retrieval | DataLoad | Oracle

text \<open>
  The answer dictionary. Every dictionary literal of the query path has these four keys.
\<close>

type_synonym QueryAnswer = "pystr \<rightharpoonup> pystr"

definition query_answer :: "pystr \<Rightarrow> pystr \<Rightarrow> pystr \<Rightarrow> pystr \<Rightarrow> QueryAnswer" where
  "query_answer a u c f =
     [str ''answer'' \<mapsto> a, str ''source_url'' \<mapsto> u, str ''scheme_code'' \<mapsto> c,
      str ''confidence'' \<mapsto> f]"

text \<open>\<^verbatim>\<open>d.get(k, '')\<close>.\<close>

definition get_or_empty :: "(pystr \<rightharpoonup> pystr) \<Rightarrow> pystr \<Rightarrow> pystr" where
  "get_or_empty d k = (case d k of None \<Rightarrow> [] | Some v \<Rightarrow> v)"

subsection \<open>rag\_system.py: search and generate\_answer\<close>

definition nth_or_raise :: "'a list \<Rightarrow> nat \<Rightarrow> error + 'a" where
  "nth_or_raise xs i =
     (if i < length xs then Inr (xs ! i) else Inl (IndexError (str ''list index out of range'')))"

fun format_loop :: "chroma_result \<Rightarrow> pystr list \<Rightarrow> nat \<Rightarrow> error + search_result list" where
  "format_loop results [] i = Inr []"
| "format_loop results (d # ds) i =
     (case nth_or_raise (metadatas results) 0 of
        Inl e \<Rightarrow> Inl e
      | Inr ms0 \<Rightarrow>
         (case nth_or_raise ms0 i of
            Inl e \<Rightarrow> Inl e
          | Inr m \<Rightarrow>
             (case (case distances results of
                      None \<Rightarrow> Inr None
                    | Some dss \<Rightarrow>
                        (case nth_or_raise dss 0 of
                           Inl e \<Rightarrow> Inl e
                         | Inr ds0 \<Rightarrow> (case nth_or_raise ds0 i of Inl e \<Rightarrow> Inl e | Inr x \<Rightarrow> Inr (Some x)))) of
                Inl e \<Rightarrow> Inl e
              | Inr dst \<Rightarrow>
                 (case format_loop results ds (i + 1) of
                    Inl e \<Rightarrow> Inl e
                  | Inr rest \<Rightarrow> Inr (\<lparr>sr_document = d, sr_metadata = m, sr_distance = dst\<rparr> # rest)))))"

definition format_results :: "chroma_result \<Rightarrow> error + search_result list" where
  "format_results results =
     (case documents results of
        [] \<Rightarrow> Inr []
      | docs0 # _ \<Rightarrow> if length docs0 > 0 then format_loop results docs0 0 else Inr [])"

definition search :: "world \<Rightarrow> pystr \<Rightarrow> int \<Rightarrow> (error + search_result list) \<times> call list" where
  "search w query n_results =
     (case collection_count w of
        Inl e \<Rightarrow> (Inr [], [Retrieval])
      | Inr count \<Rightarrow>
          if count = 0 then (Inr [], [Retrieval])
          else (case collection_query w query (if count > 0 then min n_results count else n_results) of
                  Inl e \<Rightarrow> (Inr [], [Retrieval, Retrieval])
                | Inr results \<Rightarrow> (format_results results, [Retrieval, Retrieval])))"

definition system_prompt :: pystr where
  \<open>system_prompt = str
''You are a factual assistant for Nippon India Mutual Fund information.\<newline>Your role is to provide short, factual answers based ONLY on the provided context.\<newline>Rules:\<newline>1. Answer ONLY using information from the provided context\<newline>2. Include the source URL in your answer\<newline>3. If information is not in the context, say "I don't have that information in my database"\<newline>4. Keep answers brief and factual (max 2-3 sentences)\<newline>5. Do NOT provide investment advice\<newline>6. Do NOT use fake or demo data\<newline>7. Always include the source URL at the end: "Source: [URL]"\<newline>''\<close>

definition user_prompt :: "pystr \<Rightarrow> pystr \<Rightarrow> pystr" where
  "user_prompt context query =
     str ''Context from official Nippon India Mutual Fund website:\<newline>'' @ context @
     str ''\<newline>\<newline>Question: '' @ query @
     str ''\<newline>\<newline>Provide a short factual answer based on the context above. Include the source URL.''"

definition generate_answer ::
  "world \<Rightarrow> pystr \<Rightarrow> search_result list \<Rightarrow> pystr \<Rightarrow> (error + pystr) \<times> call list" where
  "generate_answer w query context_documents source_url =
     (let context = join (str ''\<newline>\<newline>'') (map sr_document (take 3 context_documents));
          messages = [(str ''system'', system_prompt), (str ''user'', user_prompt context query)]
      in case call_openrouter w messages of
           Inl e \<Rightarrow> (Inl e, [Oracle])
         | Inr answer \<Rightarrow>
             (Inr (if \<not> is_in (str ''source:'') (lower answer) \<and> \<not> is_in (str ''source url'') (lower answer)
                   then answer @ str ''\<newline>\<newline>Source: '' @ source_url else answer),
              [Oracle]))"

subsection \<open>data\_loader.py: get\_scheme\_by\_name\<close>

definition match_scheme :: "SchemeData list \<Rightarrow> pystr \<Rightarrow> SchemeData option" where
  "match_scheme all_schemes name =
     (let scheme_name_lower = lower name in
      case find (\<lambda>s. lower (sm_scheme_name (sd_metadata s)) = scheme_name_lower) all_schemes of
        Some s \<Rightarrow> Some s
      | None \<Rightarrow>
         (case find (\<lambda>s. is_in scheme_name_lower (lower (sm_scheme_name (sd_metadata s)))) all_schemes of
            Some s \<Rightarrow> Some s
          | None \<Rightarrow>
             (let query_words = set (split scheme_name_lower) in
              find (\<lambda>s. let scheme_words = set (split (lower (sm_scheme_name (sd_metadata s))))
                        in query_words \<subseteq> scheme_words \<or> card (query_words \<inter> scheme_words) \<ge> 2)
                all_schemes)))"

definition get_scheme_by_name :: "world \<Rightarrow> pystr \<Rightarrow> (error + SchemeData option) \<times> call list" where
  "get_scheme_by_name w name =
     (case load_all_schemes w of
        Inl e \<Rightarrow> (Inl e, [DataLoad])
      | Inr all_schemes \<Rightarrow> (Inr (match_scheme all_schemes name), [DataLoad]))"

subsection \<open>query\_answerer.py\<close>

text \<open>\<^verbatim>\<open>Nippon\s+India\s+([A-Za-z\s]+?)(?:\s+Fund|\?|$)\<close> under \<^verbatim>\<open>re.I\<close>.\<close>

definition scheme_name_re :: re where
  "scheme_name_re =
     seqs [word_i ''Nippon'', Plus (Cls is_space), word_i ''India'', Plus (Cls is_space),
           Group 1 (LazyPlus (Cls (\<lambda>c. is_alpha c \<or> is_space c))),
           Alt (Seq (Plus (Cls is_space)) (word_i ''Fund'')) (Alt (lit 63) Eos)]"

definition scheme_keywords :: "pystr list" where
  "scheme_keywords = [str ''fund'', str ''scheme'', str ''plan'']"

fun keyword_loop :: "pystr list \<Rightarrow> nat \<Rightarrow> pystr list \<Rightarrow> pystr option" where
  "keyword_loop words i [] = None"
| "keyword_loop words i (wd # rest) =
     (if lower wd \<in> set scheme_keywords \<and> i > 0 then
        (let potential_name = join (str '' '') (py_slice words (max 0 (int i - 3)) (int i + 1)) in
         if is_in (str ''nippon'') (lower potential_name) then Some potential_name
         else keyword_loop words (i + 1) rest)
      else keyword_loop words (i + 1) rest)"

definition extract_scheme_name :: "pystr \<Rightarrow> pystr option" where
  "extract_scheme_name query =
     (case re_search scheme_name_re query of
        Some (g0, g) \<Rightarrow> Some (str ''Nippon India '' @ strip (group g 1) @ str '' Fund'')
      | None \<Rightarrow> keyword_loop (split query) 0 (split query))"

text \<open>
  \<^verbatim>\<open>Latest NAV: \<close>rupee\<^verbatim>\<open>?([\d,]+\.?\d*)\<close> and \<^verbatim>\<open>NAV Date: ([\d/-]+)\<close> under \<^verbatim>\<open>re.I\<close>,
  \<^verbatim>\<open>Scheme Name: ([^\n]+)\<close>, and \<^verbatim>\<open>https?://[^\s]+\<close>.
\<close>

definition latest_nav_re :: re where
  "latest_nav_re = seqs [word_i ''Latest NAV: '', Opt (lit 8377), Group 1 number_re]"

definition nav_date_re :: re where
  "nav_date_re = seqs [word_i ''NAV Date: '', Group 1 (Plus (Cls (\<lambda>c. is_digit c \<or> c = 47 \<or> c = 45)))]"

definition scheme_name_line_re :: re where
  "scheme_name_line_re = seqs [word ''Scheme Name: '', Group 1 (Plus (Cls (\<lambda>c. c \<noteq> 10)))]"

definition url_pattern :: re where
  "url_pattern = seqs [word ''http'', Opt (lit 115), word ''://'', Plus (Cls (\<lambda>c. \<not> is_space c))]"

text \<open>The first of the given sentences that mentions a word of the query.\<close>

fun sentence_loop :: "pystr list \<Rightarrow> pystr list \<Rightarrow> pystr list" where
  "sentence_loop keywords [] = []"
| "sentence_loop keywords (sentence # rest) =
     (if list_ex (\<lambda>keyword. is_in keyword (lower sentence)) keywords
      then [strip sentence @ str ''.'']
      else sentence_loop keywords rest)"

definition construct_fallback_answer :: "pystr \<Rightarrow> search_result list \<Rightarrow> pystr \<Rightarrow> error + pystr" where
  "construct_fallback_answer query search_results source_url =
     (case search_results of
        [] \<Rightarrow> Inl (IndexError (str ''list index out of range''))
      | top_result # _ \<Rightarrow>
         (let top_doc = sr_document top_result;
              parts1 =
                (if is_in (str ''nav'') (lower query) \<or> is_in (str ''net asset value'') (lower query) then
                   (case re_search latest_nav_re top_doc of
                      Some (g0, g) \<Rightarrow>
                        [str ''The latest NAV is '' @ [8377] @ group g 1 @ str '' as of '' @
                         (case re_search nav_date_re top_doc of
                            Some (d0, d) \<Rightarrow> group d 1
                          | None \<Rightarrow> str ''latest available date'') @ str ''.'']
                    | None \<Rightarrow> [])
                 else []);
              parts2 = parts1 @
                (if is_in (str ''name'') (lower query) \<or> is_in (str ''what is'') (lower query) then
                   (case re_search scheme_name_line_re top_doc of
                      Some (g0, g) \<Rightarrow> [str ''The scheme name is '' @ strip (group g 1) @ str ''.'']
                    | None \<Rightarrow> [])
                 else []);
              parts3 = (if parts2 = []
                        then sentence_loop (split (lower query)) (take 2 (split_on 46 top_doc))
                        else parts2);
              parts4 = (if parts3 = []
                        then [str ''Based on the available data from the official website:'']
                        else parts3)
          in Inr (join (str '' '') parts4 @ str ''\<newline>\<newline>Source: '' @ source_url)))"

definition fake_indicators :: "pystr list" where
  "fake_indicators =
     [str ''demo'', str ''example'', str ''sample'', str ''test data'', str ''placeholder'',
      str ''xxx'', str ''000.00'', str ''not available'', str ''n/a'', str ''tbd'']"

fun fake_loop :: "pystr list \<Rightarrow> pystr \<Rightarrow> bool" where
  "fake_loop [] answer_lower = False"
| "fake_loop (indicator # rest) answer_lower =
     (if is_in indicator answer_lower then
        (if indicator = str ''not available'' \<or> indicator = str ''n/a'' then
           (if is_in (str ''demo'') answer_lower \<or> is_in (str ''example'') answer_lower then True
            else fake_loop rest answer_lower)
         else True)
      else fake_loop rest answer_lower)"

definition contains_fake_data :: "pystr \<Rightarrow> bool" where
  "contains_fake_data answer = fake_loop fake_indicators (lower answer)"

definition has_source_url :: "pystr \<Rightarrow> bool" where
  "has_source_url answer = (re_search url_pattern answer \<noteq> None)"

definition determine_confidence :: "search_result list \<Rightarrow> pystr \<Rightarrow> pystr" where
  "determine_confidence search_results answer =
     (case search_results of
        [] \<Rightarrow> str ''low''
      | top_result # _ \<Rightarrow>
          if (case sr_distance top_result of None \<Rightarrow> False | Some d \<Rightarrow> d < 0.3)
             \<and> has_source_url answer \<and> \<not> contains_fake_data answer then str ''high''
          else if length search_results \<ge> 2 then str ''medium''
          else if (case sr_distance top_result of None \<Rightarrow> False | Some d \<Rightarrow> d > 0.7) then str ''low''
          else str ''medium'')"

text \<open>The fixed messages of \<open>answer_query\<close>.\<close>

definition msg_guidance :: pystr where
  "msg_guidance = str ''Please provide a valid query about Nippon India Mutual Fund schemes.''"

definition msg_no_information :: pystr where
  \<open>msg_no_information = str ''I don't have information about that in my database. Please ensure the data has been scraped from the official Nippon India Mutual Fund website.''\<close>

definition msg_invalid_source :: pystr where
  "msg_invalid_source = str ''I cannot provide an answer as the source URL is invalid. This may indicate data integrity issues.''"

definition msg_not_official :: pystr where
  "msg_not_official = str ''I cannot provide an answer as the data may not be from official sources. Please verify the data has been scraped from the official Nippon India Mutual Fund website.''"

text \<open>Lines 51--62: the source URL of the top result, else the first valid one in rank order.\<close>

fun candidate_loop :: "world \<Rightarrow> search_result list \<Rightarrow> pystr \<Rightarrow> pystr" where
  "candidate_loop w [] source_url = source_url"
| "candidate_loop w (result # rest) source_url =
     (let candidate_url = get_or_empty (sr_metadata result) (str ''source_url'') in
      if candidate_url \<noteq> [] \<and> validate_url (urlparse_netloc w) config candidate_url then candidate_url
      else candidate_loop w rest source_url)"

definition select_source_url :: "world \<Rightarrow> search_result \<Rightarrow> search_result list \<Rightarrow> pystr" where
  "select_source_url w top_result search_results =
     (let source_url = get_or_empty (sr_metadata top_result) (str ''source_url'') in
      if source_url = [] \<or> \<not> validate_url (urlparse_netloc w) config source_url
      then candidate_loop w search_results source_url
      else source_url)"

text \<open>Lines 72--91: the scheme named in the query replaces scheme code and source URL.\<close>

fun field_loop :: "world \<Rightarrow> pystr list \<Rightarrow> (pystr \<times> pystr) list \<Rightarrow> pystr \<Rightarrow> pystr" where
  "field_loop w [] fs source_url = source_url"
| "field_loop w (field # rest) fs source_url =
     (case map_of fs field of
        None \<Rightarrow> field_loop w rest fs source_url
      | Some candidate_url \<Rightarrow>
          if validate_url (urlparse_netloc w) config candidate_url then candidate_url
          else field_loop w rest fs source_url)"

definition scheme_source :: "world \<Rightarrow> SchemeData \<Rightarrow> pystr \<Rightarrow> pystr" where
  "scheme_source w scheme source_url =
     (case sd_field_sources scheme of
        None \<Rightarrow> sm_source_url (sd_metadata scheme)
      | Some fs \<Rightarrow>
          if fs \<noteq> []
          then field_loop w [str ''nav'', str ''scheme_page'', str ''category''] fs source_url
          else sm_source_url (sd_metadata scheme))"

definition resolve_scheme ::
  "world \<Rightarrow> pystr \<Rightarrow> search_result \<Rightarrow> pystr \<Rightarrow> (error + pystr \<times> pystr) \<times> call list" where
  "resolve_scheme w query top_result source_url =
     (let scheme_code = get_or_empty (sr_metadata top_result) (str ''scheme_code'') in
      case extract_scheme_name query of
        None \<Rightarrow> (Inr (scheme_code, source_url), [])
      | Some name \<Rightarrow>
          if name = [] then (Inr (scheme_code, source_url), [])
          else (case get_scheme_by_name w name of
                  (Inl e, t) \<Rightarrow> (Inl e, t)
                | (Inr None, t) \<Rightarrow> (Inr (scheme_code, source_url), t)
                | (Inr (Some scheme), t) \<Rightarrow>
                    (Inr (sm_scheme_code (sd_metadata scheme),
                          scheme_source w scheme source_url), t)))"

text \<open>
  Everything before answer generation (lines 29--91): either the function has already
  returned or raised, or generation proceeds with these results, scheme code and source URL.
\<close>

datatype prepared =
    Done "error + QueryAnswer"
  | Proceed "search_result list" pystr pystr

definition prepare :: "world \<Rightarrow> pystr \<Rightarrow> prepared \<times> call list" where
  "prepare w query0 =
     (if query0 = [] \<or> length (strip query0) < 3
      then (Done (Inr (query_answer msg_guidance [] [] (str ''low''))), [])
      else
        (let query = strip query0 in
         case search w query 5 of
           (Inl e, t1) \<Rightarrow> (Done (Inl e), t1)
         | (Inr search_results, t1) \<Rightarrow>
            (case search_results of
               [] \<Rightarrow> (Done (Inr (query_answer msg_no_information [] [] (str ''low''))), t1)
             | top_result # _ \<Rightarrow>
                (let source_url = select_source_url w top_result search_results in
                 if source_url = [] \<or> \<not> validate_url (urlparse_netloc w) config source_url
                 then (Done (Inr (query_answer msg_invalid_source [] [] (str ''low''))), t1)
                 else (case resolve_scheme w query top_result source_url of
                         (Inl e, t2) \<Rightarrow> (Done (Inl e), t1 @ t2)
                       | (Inr (scheme_code, source_url'), t2) \<Rightarrow>
                           (Proceed search_results scheme_code source_url', t1 @ t2))))))"

text \<open>Lines 93--103: the oracle's answer, or the fallback when the oracle call raises.\<close>

definition candidate_answer ::
  "world \<Rightarrow> pystr \<Rightarrow> search_result list \<Rightarrow> pystr \<Rightarrow> (error + pystr) \<times> call list" where
  "candidate_answer w query search_results source_url =
     (case generate_answer w query search_results source_url of
        (Inr answer, t) \<Rightarrow> (Inr answer, t)
      | (Inl e, t) \<Rightarrow> (construct_fallback_answer query search_results source_url, t))"

text \<open>Lines 105--126: the guard, the source line, the confidence.\<close>

definition finish :: "search_result list \<Rightarrow> pystr \<Rightarrow> pystr \<Rightarrow> pystr \<Rightarrow> QueryAnswer" where
  "finish search_results scheme_code source_url answer =
     (if contains_fake_data answer then query_answer msg_not_official [] scheme_code (str ''low'')
      else
        (let answer' = (if \<not> has_source_url answer then answer @ str ''\<newline>\<newline>Source: '' @ source_url
                        else answer);
             confidence = determine_confidence search_results answer'
         in query_answer answer' source_url scheme_code confidence))"

text \<open>\<^verbatim>\<open>QueryAnswerer.answer_query\<close>.\<close>

definition QueryAnswerer_answer_query :: "world \<Rightarrow> pystr \<Rightarrow> (error + QueryAnswer) \<times> call list" where
  "QueryAnswerer_answer_query w query0 =
     (case prepare w query0 of
        (Done r, t) \<Rightarrow> (r, t)
      | (Proceed search_results scheme_code source_url, t) \<Rightarrow>
          (case candidate_answer w (strip query0) search_results source_url of
             (Inl e, t3) \<Rightarrow> (Inl e, t @ t3)
           | (Inr answer, t3) \<Rightarrow> (Inr (finish search_results scheme_code source_url answer), t @ t3)))"


text \<open>
  A concrete outside world for the examples: an index holding one document of an official
  page at distance 0.2, the given outcome of reading the scheme files, and an oracle with
  the given reply.
\<close>

definition example_world :: "(error + pystr) \<Rightarrow> (error + SchemeData list) \<Rightarrow> world" where
  "example_world reply schemes =
     \<lparr>urlparse_netloc = urlsplit_netloc,
      init = None,
      collection_count = Inr 1,
      collection_query = (\<lambda>q n. Inr
         \<lparr>documents = [[str ''Scheme Name: Nippon India Gold Fund. Latest NAV: 12.5'']],
          metadatas = [[[str ''source_url'' \<mapsto> str ''https://mf.nipponindiaim.com/gold'',
                         str ''scheme_code'' \<mapsto> str ''GOLD'']]],
          distances = Some [[0.2]]\<rparr>),
      load_all_schemes = schemes,
      call_openrouter = (\<lambda>messages. reply)\<rparr>"

section \<open>scraper/validator.py: \_validate\_nav\<close>

text \<open>
  \<^verbatim>\<open>NAV[:\s]*\<close>rupee\<^verbatim>\<open>?\s*([\d,]+\.?\d*)\<close> and the same after \<^verbatim>\<open>Net Asset Value\<close>, under
  \<^verbatim>\<open>re.I\<close>.
\<close>

definition nav_patterns :: "re list" where
  "nav_patterns =
     [seqs [word_i ''NAV'', label_sep_re, Group 1 number_re],
      seqs [word_i ''Net Asset Value'', label_sep_re, Group 1 number_re]]"

fun float_loop :: "pystr list \<Rightarrow> real list" where
  "float_loop [] = []"
| "float_loop (match # rest) =
     (case py_float (remove_commas match) of
        Inl e \<Rightarrow> float_loop rest
      | Inr nav_value \<Rightarrow> nav_value # float_loop rest)"

text \<open>The list \<^verbatim>\<open>found_navs\<close> once both patterns have been searched in the page text.\<close>

definition found_navs :: "pystr \<Rightarrow> real list" where
  "found_navs page_text = concat (map (\<lambda>pattern. float_loop (findall pattern page_text)) nav_patterns)"

record nav_check =
  valid :: bool
  stored :: real
  found_on_page :: "real option"
  reason :: "pystr option"

text \<open>
  The tolerance loop. Dividing by a maximum of \<open>0\<close> raises \<^verbatim>\<open>ZeroDivisionError\<close>, which
  nothing in \<^verbatim>\<open>_validate_nav\<close> catches.
\<close>

fun close_loop :: "real \<Rightarrow> real list \<Rightarrow> error + real option" where
  "close_loop stored_nav [] = Inr None"
| "close_loop stored_nav (found_nav # rest) =
     (if max stored_nav found_nav = 0 then Inl (ZeroDivisionError (str ''float division by zero''))
      else if \<bar>stored_nav - found_nav\<bar> / max stored_nav found_nav < 0.01 then Inr (Some found_nav)
      else close_loop stored_nav rest)"

definition validate_nav :: "real \<Rightarrow> pystr \<Rightarrow> error + nav_check" where
  "validate_nav stored_nav page_text =
     (let navs = found_navs page_text in
      case navs of
        [] \<Rightarrow> Inr \<lparr>valid = False, stored = stored_nav, found_on_page = None,
                   reason = Some (str ''No NAV found on page'')\<rparr>
      | first_nav # _ \<Rightarrow>
         (case close_loop stored_nav navs of
            Inl e \<Rightarrow> Inl e
          | Inr (Some found_nav) \<Rightarrow>
              Inr \<lparr>valid = True, stored = stored_nav, found_on_page = Some found_nav, reason = None\<rparr>
          | Inr None \<Rightarrow>
              Inr \<lparr>valid = False, stored = stored_nav, found_on_page = Some first_nav,
                    reason = Some (str ''NAV mismatch'')\<rparr>))"

section \<open>scraper/nippon\_scraper.py: \_extract\_aum\<close>








section \<open>Chunking: termination and windows\<close>

lemma chunk_loop_terminates:
  assumes "CHUNK_OVERLAP cfg < CHUNK_SIZE cfg"
  shows "\<exists>r. chunk_loop md5_hex env cfg scheme_code content chunk_type source_url metadata start i chunks = Some r"
proof (induction "nat (int (length content) - start)" arbitrary: start i chunks rule: less_induct)
  case less
  show ?case
  proof (cases "start < int (length content)")
    case False
    then show ?thesis by (subst chunk_loop.simps) simp
  next
    case inside: True
    show ?thesis
    proof (cases "http_url_ok env source_url")
      case False
      with inside show ?thesis by (subst chunk_loop.simps) simp
    next
      case True
      let ?start' = "start + CHUNK_SIZE cfg - CHUNK_OVERLAP cfg"
      have "nat (int (length content) - ?start') < nat (int (length content) - start)"
        using assms inside by simp
      from less[OF this] obtain r where
        "chunk_loop md5_hex env cfg scheme_code content chunk_type source_url metadata ?start' (i + 1)
           (chunks @ [mk_chunk md5_hex env cfg scheme_code content chunk_type source_url metadata start i]) = Some r"
        by blast
      with inside True show ?thesis by (subst chunk_loop.simps) simp
    qed
  qed
qed


text \<open>
  With a positive step and a valid URL the loop returns one chunk per window start
  \<open>k * step\<close> below the length of the content.
\<close>

lemma chunk_loop_result:
  assumes step: "0 < CHUNK_SIZE cfg - CHUNK_OVERLAP cfg"
    and ok: "http_url_ok env source_url"
    and n: "n = (length content + nat (CHUNK_SIZE cfg - CHUNK_OVERLAP cfg) - 1)
                  div nat (CHUNK_SIZE cfg - CHUNK_OVERLAP cfg)"
  shows "k \<le> n \<Longrightarrow>
    chunk_loop md5_hex env cfg scheme_code content chunk_type source_url metadata
        (int k * (CHUNK_SIZE cfg - CHUNK_OVERLAP cfg)) k chunks =
      Some (Inr (chunks @ map (\<lambda>j. mk_chunk md5_hex env cfg scheme_code content chunk_type source_url metadata
                                 (int j * (CHUNK_SIZE cfg - CHUNK_OVERLAP cfg)) j) [k..<n]))"
proof (induction "n - k" arbitrary: k chunks)
  case 0
  define s where "s = nat (CHUNK_SIZE cfg - CHUNK_OVERLAP cfg)"
  have s: "0 < s" "CHUNK_SIZE cfg - CHUNK_OVERLAP cfg = int s" using step by (simp_all add: s_def)
  from 0 have kn: "k = n" by simp
  have "length content \<le> n * s"
  proof -
    have "length content + s - 1 < (n + 1) * s"
      using s(1) n s_def by (metis Suc_eq_plus1 dividend_less_div_times mult.commute mult_Suc_right
          add.commute)
    then show ?thesis using s(1) by simp
  qed
  then have "\<not> int k * (CHUNK_SIZE cfg - CHUNK_OVERLAP cfg) < int (length content)"
    unfolding kn s(2) by (metis of_nat_less_iff of_nat_mult not_less)
  then show ?case unfolding kn by (subst chunk_loop.simps) simp
next
  case (Suc d)
  define s where "s = nat (CHUNK_SIZE cfg - CHUNK_OVERLAP cfg)"
  have s: "0 < s" "CHUNK_SIZE cfg - CHUNK_OVERLAP cfg = int s" using step by (simp_all add: s_def)
  from Suc have kn: "k < n" by simp
  have "k * s < length content"
  proof (rule ccontr)
    assume "\<not> k * s < length content"
    then have "length content + s - 1 < (k + 1) * s" using s(1) by simp
    then have "(length content + s - 1) div s < k + 1"
      using s(1) by (simp add: less_mult_imp_div_less)
    then show False using kn n s_def by simp
  qed
  then have inside: "int k * (CHUNK_SIZE cfg - CHUNK_OVERLAP cfg) < int (length content)"
    unfolding s(2) by (metis of_nat_less_iff of_nat_mult)
  have next_start: "int k * (CHUNK_SIZE cfg - CHUNK_OVERLAP cfg) + CHUNK_SIZE cfg - CHUNK_OVERLAP cfg
      = int (k + 1) * (CHUNK_SIZE cfg - CHUNK_OVERLAP cfg)"
    by (simp add: algebra_simps)
  have d: "d = n - (k + 1)" using Suc by simp
  have le: "k + 1 \<le> n" using kn by simp
  have upt: "[k..<n] = k # [k + 1..<n]" using kn by (simp add: upt_conv_Cons)
  show ?case
    apply (subst chunk_loop.simps)
    apply (simp only: inside ok if_True not_True_eq_False if_False next_start)
    apply (subst Suc.hyps(1)[OF d le])
    apply (simp add: upt)
    done
qed

lemma create_text_chunks_result:
  assumes "0 < CHUNK_SIZE cfg - CHUNK_OVERLAP cfg" and "http_url_ok env source_url"
  shows "create_text_chunks md5_hex env cfg scheme_code content chunk_type source_url metadata =
      Some (Inr (map (\<lambda>j. mk_chunk md5_hex env cfg scheme_code content chunk_type source_url metadata
                              (int j * (CHUNK_SIZE cfg - CHUNK_OVERLAP cfg)) j)
                  [0..<(length content + nat (CHUNK_SIZE cfg - CHUNK_OVERLAP cfg) - 1)
                         div nat (CHUNK_SIZE cfg - CHUNK_OVERLAP cfg)]))"
  using chunk_loop_result[OF assms refl, where k = 0 and chunks = "[]"]
  by (simp add: create_text_chunks_def)





section \<open>Claims on chunking\<close>



text \<open>
  C10. \<open>create_text_chunks\<close> terminates whenever \<open>CHUNK_OVERLAP < CHUNK_SIZE\<close>, which holds
  for the configured values 200 and 1000: for every scheme code, chunk type and content the
  loop ends (the window start grows by \<open>CHUNK_SIZE - CHUNK_OVERLAP > 0\<close> in each iteration),
  and a finite list of chunks is returned (chunk construction raising on a source URL that
  is not an HTTP URL is the one other way the run can end).
\<close>

theorem create_text_chunks_terminates:
  "CHUNK_OVERLAP config < CHUNK_SIZE config \<and>
   (CHUNK_OVERLAP cfg < CHUNK_SIZE cfg \<longrightarrow>
      (\<exists>r. create_text_chunks md5_hex env cfg scheme_code content chunk_type source_url metadata = Some r) \<and>
      (http_url_ok env source_url \<longrightarrow>
         create_text_chunks md5_hex env cfg scheme_code content chunk_type source_url metadata =
           Some (Inr (map (\<lambda>j. mk_chunk md5_hex env cfg scheme_code content chunk_type source_url metadata
                                   (int j * (CHUNK_SIZE cfg - CHUNK_OVERLAP cfg)) j)
                       [0..<(length content + nat (CHUNK_SIZE cfg - CHUNK_OVERLAP cfg) - 1)
                              div nat (CHUNK_SIZE cfg - CHUNK_OVERLAP cfg)]))))"
proof (intro conjI impI)
  show "CHUNK_OVERLAP config < CHUNK_SIZE config" by (simp add: config_def)
next
  assume "CHUNK_OVERLAP cfg < CHUNK_SIZE cfg"
  then show "\<exists>r. create_text_chunks md5_hex env cfg scheme_code content chunk_type source_url metadata = Some r"
    unfolding create_text_chunks_def by (rule chunk_loop_terminates)
next
  assume "CHUNK_OVERLAP cfg < CHUNK_SIZE cfg" and "http_url_ok env source_url"
  then show "create_text_chunks md5_hex env cfg scheme_code content chunk_type source_url metadata =
           Some (Inr (map (\<lambda>j. mk_chunk md5_hex env cfg scheme_code content chunk_type source_url metadata
                                   (int j * (CHUNK_SIZE cfg - CHUNK_OVERLAP cfg)) j)
                       [0..<(length content + nat (CHUNK_SIZE cfg - CHUNK_OVERLAP cfg) - 1)
                              div nat (CHUNK_SIZE cfg - CHUNK_OVERLAP cfg)]))"
    by (intro create_text_chunks_result) simp_all
qed

theorem create_text_chunks_terminates_witness:
  "CHUNK_OVERLAP config < CHUNK_SIZE config \<and>
   create_text_chunks rev \<lparr>now = (\<lambda>i. i), http_url_ok = (\<lambda>u. True)\<rparr> config (str ''S1'')
       (replicate 801 120) (str ''scheme'') (str ''https://mf.nipponindiaim.com/a'') None =
     Some (Inr (map (\<lambda>j. mk_chunk rev \<lparr>now = (\<lambda>i. i), http_url_ok = (\<lambda>u. True)\<rparr> config (str ''S1'')
                 (replicate 801 120) (str ''scheme'') (str ''https://mf.nipponindiaim.com/a'') None
                 (int j * 800) j) [0..<2]))"
  using create_text_chunks_terminates[of config rev
      "\<lparr>now = (\<lambda>i. i), http_url_ok = (\<lambda>u. True)\<rparr>" "str ''S1''" "replicate 801 120"
      "str ''scheme''" "str ''https://mf.nipponindiaim.com/a''" None]
  by (simp add: config_def)

section \<open>The URL validator\<close>







section \<open>Confidence\<close>

lemma confidence_distinct:
  "str ''high'' \<noteq> str ''medium''" "str ''high'' \<noteq> str ''low''" "str ''medium'' \<noteq> str ''low''"
  "str ''medium'' \<noteq> str ''high''" "str ''low'' \<noteq> str ''high''" "str ''low'' \<noteq> str ''medium''"
  by (simp_all add: str_def)

text \<open>
  C3, as the code has it. For a non-empty result list the confidence is \<open>'high'\<close> exactly
  when the top result's distance is below 0.3 and the answer contains a source citation and
  passes the hallucination guard; otherwise it is \<open>'medium'\<close> whenever there are at least
  two results; with a single result it is \<open>'low'\<close> exactly when the distance is above 0.7,
  and \<open>'medium'\<close> in the remaining cases (moderate distance, distance unavailable).
\<close>

theorem determine_confidence_cases:
  fixes top_result :: search_result
  defines "near \<equiv> (\<exists>d. sr_distance top_result = Some d \<and> d < 0.3)"
      and "far \<equiv> (\<exists>d. sr_distance top_result = Some d \<and> d > 0.7)"
  shows "(determine_confidence (top_result # rest) answer = str ''high'' \<longleftrightarrow>
            near \<and> has_source_url answer \<and> \<not> contains_fake_data answer) \<and>
         (determine_confidence (top_result # rest) answer = str ''low'' \<longleftrightarrow>
            rest = [] \<and> far) \<and>
         (determine_confidence (top_result # rest) answer = str ''medium'' \<longleftrightarrow>
            \<not> (near \<and> has_source_url answer \<and> \<not> contains_fake_data answer) \<and> \<not> (rest = [] \<and> far))"
proof (cases "sr_distance top_result")
  case None
  then show ?thesis
    by (cases rest) (simp_all add: determine_confidence_def near_def far_def confidence_distinct)
next
  case (Some d)
  then show ?thesis
    by (cases rest) (auto simp: determine_confidence_def near_def far_def confidence_distinct)
qed

lemma example_has_source_url: "has_source_url (str ''NAV is 12. Source: https://mf.nipponindiaim.com/a'')"
  by (simp add: has_source_url_def url_pattern_def word_def lit_def Plus_def is_space_def str_def)

lemma example_not_fake: "\<not> contains_fake_data (str ''NAV is 12. Source: https://mf.nipponindiaim.com/a'')"
  by (simp add: contains_fake_data_def fake_indicators_def lower_def lower_cp_def str_def)

theorem determine_confidence_cases_witness:
  "determine_confidence [\<lparr>sr_document = [], sr_metadata = Map.empty, sr_distance = Some 0.2\<rparr>]
       (str ''NAV is 12. Source: https://mf.nipponindiaim.com/a'') = str ''high'' \<and>
   determine_confidence [\<lparr>sr_document = [], sr_metadata = Map.empty, sr_distance = Some 0.8\<rparr>]
       (str ''NAV is 12. Source: https://mf.nipponindiaim.com/a'') = str ''low'' \<and>
   determine_confidence [\<lparr>sr_document = [], sr_metadata = Map.empty, sr_distance = Some 0.5\<rparr>,
                         \<lparr>sr_document = [], sr_metadata = Map.empty, sr_distance = Some 0.5\<rparr>]
       (str ''NAV is 12. Source: https://mf.nipponindiaim.com/a'') = str ''medium''"
proof -
  let ?a = "str ''NAV is 12. Source: https://mf.nipponindiaim.com/a''"
  let ?r2 = "\<lparr>sr_document = [], sr_metadata = Map.empty, sr_distance = Some (0.2::real)\<rparr>"
  let ?r8 = "\<lparr>sr_document = [], sr_metadata = Map.empty, sr_distance = Some (0.8::real)\<rparr>"
  let ?r5 = "\<lparr>sr_document = [], sr_metadata = Map.empty, sr_distance = Some (0.5::real)\<rparr>"
  have near2: "\<exists>d. sr_distance ?r2 = Some d \<and> d < 0.3" by (intro exI[of _ "0.2"]) simp
  have far8: "\<exists>d. sr_distance ?r8 = Some d \<and> d > 0.7" by (intro exI[of _ "0.8"]) simp
  have mid5: "\<not> (\<exists>d. sr_distance ?r5 = Some d \<and> d < 0.3)" by simp
  have high: "determine_confidence [?r2] ?a = str ''high''"
    using determine_confidence_cases[of ?r2 "[]" ?a] near2 example_has_source_url example_not_fake
    by blast
  have low: "determine_confidence [?r8] ?a = str ''low''"
    using determine_confidence_cases[of ?r8 "[]" ?a] far8 by blast
  have medium: "determine_confidence [?r5, ?r5] ?a = str ''medium''"
    using determine_confidence_cases[of ?r5 "[?r5]" ?a] mid5 by blast
  from high low medium show ?thesis by blast
qed

text \<open>
  C3 as stated makes the confidence \<open>'low'\<close> whenever the top distance is above 0.7.
  With two results and a top distance of 0.8 the code answers \<open>'medium'\<close>.
\<close>

theorem determine_confidence_low_counterexample:
  "sr_distance \<lparr>sr_document = [], sr_metadata = Map.empty, sr_distance = Some 0.8\<rparr> = Some 0.8 \<and>
   (0.8::real) > 0.7 \<and>
   determine_confidence [\<lparr>sr_document = [], sr_metadata = Map.empty, sr_distance = Some 0.8\<rparr>,
                         \<lparr>sr_document = [], sr_metadata = Map.empty, sr_distance = Some 0.9\<rparr>]
       (str ''NAV is 12.'') = str ''medium'' \<and>
   determine_confidence [\<lparr>sr_document = [], sr_metadata = Map.empty, sr_distance = Some 0.8\<rparr>,
                         \<lparr>sr_document = [], sr_metadata = Map.empty, sr_distance = Some 0.9\<rparr>]
       (str ''NAV is 12.'') \<noteq> str ''low''"
  by (simp add: determine_confidence_def confidence_distinct)

section \<open>NAV cross-validation\<close>



lemmas regex_eval =
  str_def word_i_def word_def lit_i_def lit_def Plus_def LazyPlus_def number_re_def label_sep_re_def
  is_digit_def is_space_def is_alpha_def lower_cp_def lower_def group_def remove_commas_def
  py_float_def digits_val_def



text \<open>
  Without a positive stored NAV the division can fail: stored \<open>-1\<close> against a live
  \<open>0\<close> divides by \<open>max(-1, 0) = 0\<close>.
\<close>

lemma validate_nav_zero_division:
  "validate_nav (-1) (str ''NAV: 0'') = Inl (ZeroDivisionError (str ''float division by zero''))"
  by (simp add: validate_nav_def found_navs_def nav_patterns_def regex_eval)

section \<open>AUM extraction\<close>













section \<open>The query path\<close>

lemma query_answer_lookup:
  "query_answer a u c f (str ''answer'') = Some a"
  "query_answer a u c f (str ''source_url'') = Some u"
  "query_answer a u c f (str ''scheme_code'') = Some c"
  "query_answer a u c f (str ''confidence'') = Some f"
  by (simp_all add: query_answer_def str_def)


lemma is_in_iff: "is_in sub s \<longleftrightarrow> (\<exists>u v. s = u @ sub @ v)"
proof (induction s)
  case Nil
  show ?case by auto
next
  case (Cons c cs)
  have pre: "take (length sub) (c # cs) = sub \<longleftrightarrow> (\<exists>v. c # cs = sub @ v)"
    by (metis append_eq_conv_conj append_take_drop_id)
  have "(\<exists>u v. c # cs = u @ sub @ v) \<longleftrightarrow> (\<exists>v. c # cs = sub @ v) \<or> (\<exists>u v. cs = u @ sub @ v)"
  proof
    assume "\<exists>u v. c # cs = u @ sub @ v"
    then obtain u v where uv: "c # cs = u @ sub @ v" by blast
    show "(\<exists>v. c # cs = sub @ v) \<or> (\<exists>u v. cs = u @ sub @ v)"
    proof (cases u)
      case Nil
      with uv show ?thesis by auto
    next
      case (Cons d u')
      with uv have "cs = u' @ sub @ v" by simp
      then show ?thesis by blast
    qed
  next
    assume "(\<exists>v. c # cs = sub @ v) \<or> (\<exists>u v. cs = u @ sub @ v)"
    then show "\<exists>u v. c # cs = u @ sub @ v"
    proof
      assume "\<exists>v. c # cs = sub @ v"
      then obtain v where "c # cs = [] @ sub @ v" by auto
      then show ?thesis by blast
    next
      assume "\<exists>u v. cs = u @ sub @ v"
      then obtain u v where "c # cs = (c # u) @ sub @ v" by auto
      then show ?thesis by blast
    qed
  qed
  with pre Cons show ?case by simp
qed

text \<open>An answer with \<open>demo\<close> or \<open>sample\<close> in it, in any letter case, trips the guard.\<close>

lemma fake_loop_demo: "is_in (str ''demo'') al \<Longrightarrow> fake_loop fake_indicators al"
  by (simp add: fake_indicators_def str_def)

lemma fake_loop_sample: "is_in (str ''sample'') al \<Longrightarrow> fake_loop fake_indicators al"
  by (simp add: fake_indicators_def str_def)

lemma contains_fake_data_marker:
  assumes "answer = u @ x @ v" and "lower x = str ''demo'' \<or> lower x = str ''sample''"
  shows "contains_fake_data answer"
proof -
  have "lower answer = lower u @ lower x @ lower v"
    using assms(1) by (simp add: lower_def)
  then have "is_in (lower x) (lower answer)"
    unfolding is_in_iff by blast
  with assms(2) show ?thesis
    unfolding contains_fake_data_def using fake_loop_demo fake_loop_sample by metis
qed

lemma msg_not_official_clean: "\<not> contains_fake_data msg_not_official"
  by (simp add: contains_fake_data_def msg_not_official_def fake_indicators_def lower_def
      lower_cp_def str_def)

lemmas query_eval =
  QueryAnswerer_answer_query_def prepare_def search_def format_results_def nth_or_raise_def
  select_source_url_def get_or_empty_def validate_url_def urlsplit_netloc_def scheme_char_def
  endswith_def config_def resolve_scheme_def extract_scheme_name_def scheme_name_re_def
  scheme_keywords_def get_scheme_by_name_def match_scheme_def scheme_source_def
  candidate_answer_def generate_answer_def finish_def contains_fake_data_def fake_indicators_def
  has_source_url_def url_pattern_def determine_confidence_def example_world_def strip_def
  split_def py_slice_def norm_index_def Let_def

text \<open>
  C6, as the code has it. A query whose length after stripping leading and trailing
  whitespace is below 3 (the empty query among them) gets the low-confidence guidance
  answer, with empty source URL and scheme code, and no call is made to the retrieval
  index, the scheme files or the oracle.
\<close>

theorem short_query_guidance:
  assumes "length (strip query) < 3"
  shows "QueryAnswerer_answer_query w query =
           (Inr (query_answer msg_guidance [] [] (str ''low'')), [])"
  using assms by (simp add: QueryAnswerer_answer_query_def prepare_def)

theorem short_query_guidance_witness:
  "length (strip (str '' hi '')) < 3 \<and>
   QueryAnswerer_answer_query (example_world (Inr (str ''The NAV is 12.5'')) (Inr [])) (str '' hi '') =
     (Inr (query_answer msg_guidance [] [] (str ''low'')), [])"
proof -
  have h: "length (strip (str '' hi '')) < 3" by (simp add: strip_def str_def is_space_def)
  from h short_query_guidance[OF h] show ?thesis by simp
qed

text \<open>
  C6 as stated counts non-whitespace characters. The query \<^verbatim>\<open>a b\<close> has two of them,
  its stripped length is 3, and it goes to the retrieval index and to the oracle.
\<close>

theorem short_query_counterexample:
  "length (filter (\<lambda>c. \<not> is_space c) (str ''a b'')) < 3 \<and>
   QueryAnswerer_answer_query (example_world (Inr (str ''The NAV is 12.5'')) (Inr [])) (str ''a b'') =
     (Inr (query_answer (str ''The NAV is 12.5\<newline>\<newline>Source: https://mf.nipponindiaim.com/gold'')
             (str ''https://mf.nipponindiaim.com/gold'') (str ''GOLD'') (str ''high'')),
      [Retrieval, Retrieval, Oracle]) \<and>
   query_answer (str ''The NAV is 12.5\<newline>\<newline>Source: https://mf.nipponindiaim.com/gold'')
             (str ''https://mf.nipponindiaim.com/gold'') (str ''GOLD'') (str ''high'') (str ''confidence'')
     \<noteq> query_answer msg_guidance [] [] (str ''low'') (str ''confidence'')"
proof -
  have a: "length (filter (\<lambda>c. \<not> is_space c) (str ''a b'')) < 3"
    by (simp add: str_def is_space_def)
  have b: "QueryAnswerer_answer_query (example_world (Inr (str ''The NAV is 12.5'')) (Inr [])) (str ''a b'') =
     (Inr (query_answer (str ''The NAV is 12.5\<newline>\<newline>Source: https://mf.nipponindiaim.com/gold'')
             (str ''https://mf.nipponindiaim.com/gold'') (str ''GOLD'') (str ''high'')),
      [Retrieval, Retrieval, Oracle])"
    by (simp add: query_eval regex_eval)
  have c: "query_answer (str ''The NAV is 12.5\<newline>\<newline>Source: https://mf.nipponindiaim.com/gold'')
             (str ''https://mf.nipponindiaim.com/gold'') (str ''GOLD'') (str ''high'') (str ''confidence'')
     \<noteq> query_answer msg_guidance [] [] (str ''low'') (str ''confidence'')"
    unfolding query_answer_lookup by (simp add: str_def)
  from a b c show ?thesis by blast
qed

text \<open>
  C1. Whenever a query reaches answer generation and the candidate answer, from the
  oracle or from the fallback constructor, contains \<open>demo\<close> or \<open>sample\<close> in any letter
  case, \<open>answer_query\<close> returns the integrity-warning refusal: empty source URL,
  confidence \<open>'low'\<close>, and an answer text that is not the candidate.
\<close>

theorem hallucination_guard:
  assumes "prepare w query = (Proceed search_results scheme_code source_url, t)"
    and "candidate_answer w (strip query) search_results source_url = (Inr answer, t')"
    and "answer = u @ x @ v"
    and "lower x = str ''demo'' \<or> lower x = str ''sample''"
  shows "QueryAnswerer_answer_query w query =
           (Inr (query_answer msg_not_official [] scheme_code (str ''low'')), t @ t') \<and>
         msg_not_official \<noteq> answer"
proof -
  have fake: "contains_fake_data answer"
    using assms(3,4) by (rule contains_fake_data_marker)
  then have "msg_not_official \<noteq> answer"
    using msg_not_official_clean by auto
  moreover have "QueryAnswerer_answer_query w query =
           (Inr (query_answer msg_not_official [] scheme_code (str ''low'')), t @ t')"
    using assms(1,2) fake by (simp add: QueryAnswerer_answer_query_def finish_def)
  ultimately show ?thesis by simp
qed

theorem hallucination_guard_witness:
  "QueryAnswerer_answer_query (example_world (Inr (str ''A Demo value'')) (Inr [])) (str ''nav today'') =
     (Inr (query_answer msg_not_official [] (str ''GOLD'') (str ''low'')), [Retrieval, Retrieval] @ [Oracle]) \<and>
   msg_not_official \<noteq> str ''A '' @ str ''Demo'' @ str '' value\<newline>\<newline>Source: https://mf.nipponindiaim.com/gold''"
proof -
  let ?w = "example_world (Inr (str ''A Demo value'')) (Inr [])"
  let ?rs = "[\<lparr>sr_document = str ''Scheme Name: Nippon India Gold Fund. Latest NAV: 12.5'',
               sr_metadata = [str ''source_url'' \<mapsto> str ''https://mf.nipponindiaim.com/gold'',
                              str ''scheme_code'' \<mapsto> str ''GOLD''],
               sr_distance = Some 0.2\<rparr>]"
  have p: "prepare ?w (str ''nav today'') =
             (Proceed ?rs (str ''GOLD'') (str ''https://mf.nipponindiaim.com/gold''), [Retrieval, Retrieval])"
    by (simp add: query_eval regex_eval)
  have c: "candidate_answer ?w (strip (str ''nav today'')) ?rs (str ''https://mf.nipponindiaim.com/gold'') =
             (Inr (str ''A '' @ str ''Demo'' @ str '' value\<newline>\<newline>Source: https://mf.nipponindiaim.com/gold''),
              [Oracle])"
    by (simp add: query_eval regex_eval)
  have l: "lower (str ''Demo'') = str ''demo'' \<or> lower (str ''Demo'') = str ''sample''"
    by (simp add: lower_def lower_cp_def str_def)
  show ?thesis
    by (rule hallucination_guard[OF p c refl l])
qed






text \<open>
  C2 fails on the stored-record branch. When the scheme named in the query has no
  \<open>field_sources\<close>, its stored \<open>source_url\<close> replaces the validated one without being
  validated (the branch beside it validates each candidate): here the answer cites
  \<^verbatim>\<open>https://other.org/gold\<close>, which \<open>validate_url\<close> rejects.
\<close>

theorem unvalidated_stored_source_url:
  "QueryAnswerer_answer_query
      (example_world (Inr (str ''The NAV is 12.5''))
         (Inr [\<lparr>sd_metadata = \<lparr>sm_scheme_code = str ''G1'', sm_scheme_name = str ''Nippon India Gold Fund'',
                                sm_source_url = str ''https://other.org/gold''\<rparr>,
                sd_field_sources = None\<rparr>]))
      (str ''Nippon India Gold Fund'') =
     (Inr (query_answer (str ''The NAV is 12.5\<newline>\<newline>Source: https://other.org/gold'')
             (str ''https://other.org/gold'') (str ''G1'') (str ''high'')),
      [Retrieval, Retrieval, DataLoad, Oracle]) \<and>
   query_answer (str ''The NAV is 12.5\<newline>\<newline>Source: https://other.org/gold'')
             (str ''https://other.org/gold'') (str ''G1'') (str ''high'') (str ''source_url'') =
     Some (str ''https://other.org/gold'') \<and>
   str ''https://other.org/gold'' \<noteq> [] \<and>
   \<not> validate_url urlsplit_netloc config (str ''https://other.org/gold'')"
proof -
  have a: "QueryAnswerer_answer_query
      (example_world (Inr (str ''The NAV is 12.5''))
         (Inr [\<lparr>sd_metadata = \<lparr>sm_scheme_code = str ''G1'', sm_scheme_name = str ''Nippon India Gold Fund'',
                                sm_source_url = str ''https://other.org/gold''\<rparr>,
                sd_field_sources = None\<rparr>]))
      (str ''Nippon India Gold Fund'') =
     (Inr (query_answer (str ''The NAV is 12.5\<newline>\<newline>Source: https://other.org/gold'')
             (str ''https://other.org/gold'') (str ''G1'') (str ''high'')),
      [Retrieval, Retrieval, DataLoad, Oracle])"
    by (simp add: query_eval regex_eval)
  have b: "\<not> validate_url urlsplit_netloc config (str ''https://other.org/gold'')"
    by (simp add: validate_url_def urlsplit_netloc_def scheme_char_def endswith_def config_def regex_eval)
  have c: "str ''https://other.org/gold'' \<noteq> []" by (simp add: str_def)
  from a b c show ?thesis by (simp add: query_answer_lookup)
qed

text \<open>
  Apart from that branch the source URL handed on to answer generation is always a
  validated one.
\<close>

lemma candidate_loop_valid:
  "candidate_loop w rs u0 = u0 \<or>
   (candidate_loop w rs u0 \<noteq> [] \<and> validate_url (urlparse_netloc w) config (candidate_loop w rs u0))"
  by (induction rs) (auto simp: Let_def)

lemma field_loop_valid:
  "validate_url (urlparse_netloc w) config u0 \<Longrightarrow>
   validate_url (urlparse_netloc w) config (field_loop w names fs u0)"
  by (induction names) (auto split: option.splits)

lemma prepare_source_url:
  assumes "prepare w query = (Proceed search_results scheme_code source_url, t)"
  shows "validate_url (urlparse_netloc w) config source_url \<or>
         (\<exists>name scheme t'.
            extract_scheme_name (strip query) = Some name \<and>
            get_scheme_by_name w name = (Inr (Some scheme), t') \<and>
            (sd_field_sources scheme = None \<or> sd_field_sources scheme = Some []) \<and>
            source_url = sm_source_url (sd_metadata scheme))"
  using assms field_loop_valid
  by (auto simp: prepare_def resolve_scheme_def scheme_source_def Let_def
      split: if_splits prod.splits sum.splits list.splits option.splits)

end
